theory Spec2Isabelle
  imports Main "HOL-Library.Word" "HOL-Library.Signed_Division" "HOL-Library.Sublist"
begin

section \<open>Fuzzing harnesses for runc's libcontainer: a shallow embedding\<close>

text \<open>
  The repository holds go-fuzz entry points: \<open>FuzzInit\<close>, \<open>FuzzStateApi\<close> and
  \<open>FuzzFactory\<close> (package \<open>libcontainer\<close>) and \<open>Fuzz\<close> (package \<open>devices\<close>).
  Each takes a byte buffer and returns an \<open>int\<close> signal. They call into three
  libraries whose code is not part of the repository: go-fuzz-headers (the byte
  consumer), the Go runtime's \<open>os\<close> package, and runc's libcontainer. Those calls are
  parameters of the model (the records \<open>consumer\<close>, \<open>env\<close> and \<open>devices\<close> below);
  every branch the harnesses take on their results is a branch of the model. The
  library calls are taken to return; a harness that panics or hangs inside one
  returns no signal. Where a local variable of the source has the name of a record
  field, the model writes it with a prime (\<open>config'\<close>).
\<close>

subsection \<open>Data\<close>

type_synonym byte = "8 word"

text \<open>Go's \<open>error\<close> values, as far as the harnesses tell them apart.\<close>

datatype error = ENOENT | EOther | ErrorString string

definition IsNotExist :: "error \<Rightarrow> bool" where
  "IsNotExist err = (err = ENOENT)"

text \<open>logrus levels; \<open>FuzzStateApi\<close> sets the process-wide level.\<close>

datatype Level = PanicLevel | FatalLevel | ErrorLevel | WarnLevel | InfoLevel | DebugLevel | TraceLevel

text \<open>\<open>configs.NamespaceType\<close>, \<open>configs.Namespace\<close>, and the fields of
  \<open>configs.Cgroup\<close> and \<open>configs.Config\<close> that the harnesses read or write.\<close>

datatype NamespaceType = NEWNET | NEWPID | NEWNS | NEWUTS | NEWIPC | NEWUSER | NEWCGROUP

record Namespace =
  Type :: NamespaceType
  Path :: string

record Cgroup =
  Parent :: string

record Config =
  Rootfs :: string
  Namespaces :: "Namespace list"
  Cgroups :: "Cgroup option"

text \<open>The second argument of \<open>libcontainer.New\<close>: the cgroup driver option.\<close>

datatype cgroup_option = Cgroupfs | SystemdCgroups

text \<open>\<open>linuxStandardInit\<close> as \<open>FuzzInit\<close> fills it; the two files are named by path.\<close>

record 'i linuxStandardInit =
  pipe :: string
  consoleSocket :: string
  parentPid :: int
  config :: 'i
  fifoFd :: int

text \<open>\<open>LinuxFactory\<close> as \<open>FuzzFactory\<close> fills it (the validator is a fixed object).\<close>

record LinuxFactory =
  Root :: string
  InitPath :: string
  InitArgs :: "string list"
  CriuPath :: string

record FuzzState =
  OciVersion :: string
  Id' :: string
  Status :: string
  Pid :: int
  Bundle :: string
  Annotations :: "string list"

subsection \<open>The world: the disk, the log level, and the calls made into libcontainer\<close>

datatype ('i, 'f, 'k) event =
    InitCall "'i linuxStandardInit"
  | NewCall string cgroup_option
  | CreateCall 'f string Config
  | StateCall 'k
  | StatsCall 'k
  | OCIStateCall 'k
  | ProcessesCall 'k
  | DestroyCall 'k
  | LoadCall LinuxFactory string

text \<open>
  \<open>disk\<close> is the set of paths that exist. File contents and open descriptors are not
  modelled. \<open>trace\<close> lists, in order, the calls a harness made into libcontainer,
  with their arguments; the libraries themselves only see and change the disk.
\<close>

record ('i, 'f, 'k) world =
  disk :: "string set"
  log_level :: Level
  trace :: "('i, 'f, 'k) event list"

subsection \<open>The libraries the harnesses call\<close>

text \<open>go-fuzz-headers: a consumer \<open>'c\<close> over the byte buffer. A failed extraction is \<open>None\<close>.\<close>

record 'c consumer =
  NewConsumer :: "byte list \<Rightarrow> 'c"
  GetString :: "'c \<Rightarrow> string option \<times> 'c"
  GetInt :: "'c \<Rightarrow> int option \<times> 'c"

text \<open>
  The operating system and libcontainer. \<open>OpenFile_fails p\<close>, \<open>MkdirAll_fails p\<close>,
  \<open>Write_fails p\<close> and \<open>Open_fails p\<close> say whether the call on path \<open>p\<close> returns an
  error (each harness makes each of these calls at most once per path).
  \<open>GenerateStruct\<close> fills a struct from the consumer and its error is discarded by
  the harnesses, so it always yields a struct. The libcontainer calls take the disk
  and return it changed.
\<close>

record ('c, 'i, 'f, 'k) env = "'c consumer" +
  OpenFile_fails :: "string \<Rightarrow> bool"
  MkdirAll_fails :: "string \<Rightarrow> bool"
  Write_fails :: "string \<Rightarrow> bool"
  Open_fails :: "string \<Rightarrow> bool"
  Getppid :: int
  Args0 :: string
  GenerateStruct_initConfig :: "'c \<Rightarrow> 'i \<times> 'c"
  GenerateStruct_Config :: "'c \<Rightarrow> Config \<times> 'c"
  Init :: "'i linuxStandardInit \<Rightarrow> string set \<Rightarrow> string set"
  New :: "string \<Rightarrow> cgroup_option \<Rightarrow> string set \<Rightarrow> (error + 'f) \<times> string set"
  Create :: "'f \<Rightarrow> string \<Rightarrow> Config \<Rightarrow> string set \<Rightarrow> (error + 'k) \<times> string set"
  State :: "'k \<Rightarrow> string set \<Rightarrow> string set"
  Stats :: "'k \<Rightarrow> string set \<Rightarrow> string set"
  OCIState :: "'k \<Rightarrow> string set \<Rightarrow> string set"
  Processes :: "'k \<Rightarrow> string set \<Rightarrow> string set"
  Destroy :: "'k \<Rightarrow> string set \<Rightarrow> string set"
  Load :: "LinuxFactory \<Rightarrow> string \<Rightarrow> string set \<Rightarrow> string set"
  json_Marshal :: "FuzzState \<Rightarrow> byte list option"
  SecureJoin :: "string \<Rightarrow> string \<Rightarrow> string option"

text \<open>Package \<open>devices\<close>: the rule-list parser and the transition, over an emulator \<open>'e\<close>.\<close>

record ('c, 'e, 'r) devices = "'c consumer" +
  EmulatorFromList :: "string \<Rightarrow> 'e option"
  Transition :: "'e \<Rightarrow> 'e \<Rightarrow> error + 'r"

subsection \<open>Package \<open>os\<close>\<close>

text \<open>The directories above a path: \<open>/tmp\<close> and \<open>/tmp/fuzz-root\<close> for \<open>/tmp/fuzz-root/fuzz\<close>.\<close>

definition parents :: "string \<Rightarrow> string list" where
  "parents p = [take i p. i \<leftarrow> [1..<length p], p ! i = CHR ''/'']"

text \<open>\<open>os.OpenFile(p, O_RDWR|O_CREATE, 0755)\<close>: the file exists afterwards.\<close>

definition os_OpenFile ::
  "('c, 'i, 'f, 'k) env \<Rightarrow> string \<Rightarrow> ('i, 'f, 'k) world \<Rightarrow> error + ('i, 'f, 'k) world" where
  "os_OpenFile env p w =
     (if OpenFile_fails env p then Inl EOther else Inr (w\<lparr>disk := insert p (disk w)\<rparr>))"

text \<open>\<open>os.MkdirAll(p, perm)\<close>: the directory and the directories above it exist afterwards.\<close>

definition os_MkdirAll ::
  "('c, 'i, 'f, 'k) env \<Rightarrow> string \<Rightarrow> ('i, 'f, 'k) world \<Rightarrow> error + ('i, 'f, 'k) world" where
  "os_MkdirAll env p w =
     (if MkdirAll_fails env p then Inl EOther
      else Inr (w\<lparr>disk := insert p (set (parents p) \<union> disk w)\<rparr>))"

text \<open>\<open>f.Write(b)\<close> on the file opened at \<open>p\<close>: the set of paths does not change.\<close>

definition os_Write ::
  "('c, 'i, 'f, 'k) env \<Rightarrow> string \<Rightarrow> byte list \<Rightarrow> ('i, 'f, 'k) world \<Rightarrow> error + ('i, 'f, 'k) world" where
  "os_Write env p b w = (if Write_fails env p then Inl EOther else Inr w)"

text \<open>\<open>os.Open(p)\<close>: fails with a not-exist error when the path is absent.\<close>

definition os_Open :: "('c, 'i, 'f, 'k) env \<Rightarrow> string \<Rightarrow> ('i, 'f, 'k) world \<Rightarrow> error option" where
  "os_Open env p w =
     (if p \<notin> disk w then Some ENOENT else if Open_fails env p then Some EOther else None)"

text \<open>
  \<open>os.RemoveAll(p)\<close> removes \<open>p\<close> and everything beneath it. Its error is discarded at
  every call site; the model takes the removal to succeed.
\<close>

definition os_RemoveAll :: "string \<Rightarrow> ('i, 'f, 'k) world \<Rightarrow> ('i, 'f, 'k) world" where
  "os_RemoveAll p w =
     w\<lparr>disk := Set.filter (\<lambda>q. \<not> (q = p \<or> prefix (p @ ''/'') q)) (disk w)\<rparr>"

text \<open>A \<open>defer\<close>red call runs on the world the rest of the function leaves behind.\<close>

definition deferred ::
  "(('i, 'f, 'k) world \<Rightarrow> ('i, 'f, 'k) world) \<Rightarrow> int \<times> ('i, 'f, 'k) world \<Rightarrow> int \<times> ('i, 'f, 'k) world" where
  "deferred cleanup r = (fst r, cleanup (snd r))"

text \<open>A call into libcontainer: logged, and the disk changed as the library changes it.\<close>

definition call ::
  "('i, 'f, 'k) event \<Rightarrow> (string set \<Rightarrow> string set) \<Rightarrow> ('i, 'f, 'k) world \<Rightarrow> ('i, 'f, 'k) world" where
  "call ev effect w = w\<lparr>disk := effect (disk w), trace := trace w @ [ev]\<rparr>"

subsection \<open>\<open>FuzzInit\<close>\<close>

definition FuzzInit ::
  "('c, 'i, 'f, 'k) env \<Rightarrow> byte list \<Rightarrow> ('i, 'f, 'k) world \<Rightarrow> int \<times> ('i, 'f, 'k) world" where
  "FuzzInit env data w =
     (if length data < 5 then (- 1, w)
      else case os_OpenFile env ''pipe.txt'' w of
        Inl err \<Rightarrow> (- 1, w)
      | Inr w1 \<Rightarrow> deferred (os_RemoveAll ''pipe.txt'')
          (case os_OpenFile env ''consoleSocket.txt'' w1 of
             Inl err \<Rightarrow> (- 1, w1)
           | Inr w2 \<Rightarrow> deferred (os_RemoveAll ''consoleSocket.txt'')
               (let c = NewConsumer env data;
                    (config', c) = GenerateStruct_initConfig env c;
                    fifoFd' = uint (data ! 0);
                    l = \<lparr>pipe = ''pipe.txt'', consoleSocket = ''consoleSocket.txt'',
                         parentPid = Getppid env, config = config', fifoFd = fifoFd'\<rparr>
                in (1, call (InitCall l) (Init env l) w2))))"

subsection \<open>\<open>FuzzStateApi\<close>\<close>

definition logrus_SetLevel :: "Level \<Rightarrow> ('i, 'f, 'k) world \<Rightarrow> ('i, 'f, 'k) world" where
  "logrus_SetLevel lvl w = w\<lparr>log_level := lvl\<rparr>"

definition newTestRoot ::
  "('c, 'i, 'f, 'k) env \<Rightarrow> ('i, 'f, 'k) world \<Rightarrow> (error + string) \<times> ('i, 'f, 'k) world" where
  "newTestRoot env w =
     (let dir = ''/tmp/fuzzing''
      in case os_MkdirAll env dir w of
           Inl err \<Rightarrow> (Inl err, w)
         | Inr w1 \<Rightarrow> (Inr dir, w1))"

text \<open>\<open>libcontainer.New\<close> and \<open>Factory.Create\<close>, logged and threaded through the world.\<close>

definition lib_New ::
  "('c, 'i, 'f, 'k) env \<Rightarrow> string \<Rightarrow> cgroup_option \<Rightarrow> ('i, 'f, 'k) world
     \<Rightarrow> (error + 'f) \<times> ('i, 'f, 'k) world" where
  "lib_New env root opt w =
     (let (r, d) = New env root opt (disk w)
      in (r, w\<lparr>disk := d, trace := trace w @ [NewCall root opt]\<rparr>))"

definition lib_Create ::
  "('c, 'i, 'f, 'k) env \<Rightarrow> 'f \<Rightarrow> string \<Rightarrow> Config \<Rightarrow> ('i, 'f, 'k) world
     \<Rightarrow> (error + 'k) \<times> ('i, 'f, 'k) world" where
  "lib_Create env f name config' w =
     (let (r, d) = Create env f name config' (disk w)
      in (r, w\<lparr>disk := d, trace := trace w @ [CreateCall f name config']\<rparr>))"

text \<open>\<open>config.Cgroups != nil && config.Cgroups.Parent == "system.slice"\<close>\<close>

definition wants_systemd :: "Config \<Rightarrow> bool" where
  "wants_systemd config' =
     (case Cgroups config' of None \<Rightarrow> False | Some cg \<Rightarrow> Parent cg = ''system.slice'')"

definition newContainerWithName ::
  "('c, 'i, 'f, 'k) env \<Rightarrow> string \<Rightarrow> string \<Rightarrow> Config \<Rightarrow> ('i, 'f, 'k) world
     \<Rightarrow> (error + 'k) \<times> ('i, 'f, 'k) world" where
  "newContainerWithName env name root config' w =
     (case lib_New env root Cgroupfs w of
        (Inl err, w1) \<Rightarrow> (Inl err, w1)
      | (Inr f, w1) \<Rightarrow>
          if wants_systemd config' then
            (case lib_New env root SystemdCgroups w1 of
               (Inl err, w2) \<Rightarrow> (Inl err, w2)
             | (Inr f', w2) \<Rightarrow> lib_Create env f' name config' w2)
          else lib_Create env f name config' w1)"

text \<open>
  Lines 82 to 96 of \<open>FuzzStateApi\<close>: the namespaces chosen by the selector \<open>ns\<close>.
  \<open>smod\<close> is Go's \<open>%\<close>, whose result has the sign of the dividend. Go's \<open>int\<close> has 64
  bits; the model's \<open>int\<close> covers its range, and nothing here overflows.
\<close>

definition add_Namespaces :: "int \<Rightarrow> Config \<Rightarrow> Config" where
  "add_Namespaces ns config' =
     (if ns smod 3 = 0 then config'\<lparr>Namespaces := [\<lparr>Type = NEWUTS, Path = []\<rparr>]\<rparr>
      else if ns smod 4 = 0 then config'\<lparr>Namespaces := [\<lparr>Type = NEWNS, Path = []\<rparr>]\<rparr>
      else config'\<lparr>Namespaces := []\<rparr>)"

definition FuzzStateApi ::
  "('c, 'i, 'f, 'k) env \<Rightarrow> byte list \<Rightarrow> ('i, 'f, 'k) world \<Rightarrow> int \<times> ('i, 'f, 'k) world" where
  "FuzzStateApi env data w0 =
     (let w = logrus_SetLevel PanicLevel w0
      in if length data < 4 then (- 1, w)
      else (case newTestRoot env w of
        (Inl err, w1) \<Rightarrow> (- 1, w1)
      | (Inr root, w1) \<Rightarrow> deferred (os_RemoveAll root)
          (let c = NewConsumer env data;
               (config', c) = GenerateStruct_Config env c;
               config' = config'\<lparr>Rootfs := root\<rparr>;
               (ns, c) = GetInt env c
           in (case ns of
                None \<Rightarrow> (- 1, w1)
              | Some ns \<Rightarrow>
                 (let config' = add_Namespaces ns config';
                      (containerName, c) = GetString env c
                  in (case containerName of
                       None \<Rightarrow> (0, w1)
                     | Some containerName \<Rightarrow>
                         (case newContainerWithName env containerName root config' w1 of
                            (Inl err, w2) \<Rightarrow> (0, w2)
                          | (Inr container, w2) \<Rightarrow>
                              deferred (call (DestroyCall container) (Destroy env container))
                                (let w3 = call (StateCall container) (State env container) w2;
                                     w4 = call (StatsCall container) (Stats env container) w3;
                                     w5 = call (OCIStateCall container) (OCIState env container) w4;
                                     w6 = call (ProcessesCall container) (Processes env container) w5
                                 in (1, w6)))))))))"

subsection \<open>\<open>FuzzFactory\<close>\<close>

text \<open>The loop over \<open>files\<close> is the recursion over the list.\<close>

fun createFiles ::
  "('c, 'i, 'f, 'k) env \<Rightarrow> string list \<Rightarrow> byte list \<Rightarrow> ('i, 'f, 'k) world
     \<Rightarrow> error option \<times> ('i, 'f, 'k) world" where
  "createFiles env [] b w = (None, w)"
| "createFiles env (p # ps) b w =
     (case os_OpenFile env p w of
        Inl err \<Rightarrow> (Some (ErrorString ''Could not create file''), w)
      | Inr w1 \<Rightarrow>
          (case os_Write env p b w1 of
             Inl err \<Rightarrow> (Some (ErrorString ''Could not write to file''), w1)
           | Inr w2 \<Rightarrow> createFiles env ps b w2))"

definition FuzzFactory ::
  "('c, 'i, 'f, 'k) env \<Rightarrow> byte list \<Rightarrow> ('i, 'f, 'k) world \<Rightarrow> int \<times> ('i, 'f, 'k) world" where
  "FuzzFactory env data w =
     (if length data < 20 then (- 1, w)
      else (let root = ''/tmp/fuzz-root''
      in (case os_MkdirAll env root w of
        Inl err \<Rightarrow> (- 1, w)
      | Inr w1 \<Rightarrow>
      (case os_MkdirAll env ''/tmp/fuzz-root/fuzz'' w1 of
        Inl err \<Rightarrow> (- 1, w1)
      | Inr w2 \<Rightarrow>
      (let factory = \<lparr>Root = root, InitPath = ''/proc/self/exe'',
                      InitArgs = [Args0 env, ''init''], CriuPath = ''criu''\<rparr>;
           c = NewConsumer env data;
           (ociVersion, c) = GetString env c
       in (case ociVersion of None \<Rightarrow> (0, w2) | Some ociVersion \<Rightarrow>
      (let (ident, c) = GetString env c
       in (case ident of None \<Rightarrow> (0, w2) | Some ident \<Rightarrow>
      (let (status, c) = GetString env c
       in (case status of None \<Rightarrow> (0, w2) | Some status \<Rightarrow>
      (let (pid, c) = GetInt env c
       in (case pid of None \<Rightarrow> (0, w2) | Some pid \<Rightarrow>
      (let (bundle, c) = GetString env c
       in (case bundle of None \<Rightarrow> (0, w2) | Some bundle \<Rightarrow>
      (if length ociVersion < 5 \<or> length ident < 5 \<or> length bundle < 5 then (0, w2)
       else
      (let fs = \<lparr>OciVersion = ociVersion, Id' = ident, Status = status, Pid = pid,
                 Bundle = bundle, Annotations = [''fuzz'']\<rparr>
       in (case json_Marshal env fs of None \<Rightarrow> (0, w2) | Some b \<Rightarrow>
      (let stateFilename = ''state.json'';
           state_json_path = ''/tmp/fuzz-root/fuzz/state.json'';
           state_json = [state_json_path]
       in (case createFiles env state_json b w2 of
         (Some err, w3) \<Rightarrow> (0, w3)
       | (None, w3) \<Rightarrow> deferred (os_RemoveAll state_json_path)
          (case SecureJoin env ''/tmp/fuzz-root/fuzz'' stateFilename of
             None \<Rightarrow> (- 1, w3)
           | Some stateFilePath \<Rightarrow>
               (case os_Open env stateFilePath w3 of
                  Some err \<Rightarrow>
                    (if IsNotExist err then (- 1, w3)
                     else (1, call (LoadCall factory ''fuzz'') (Load env factory ''fuzz'') w3))
                | None \<Rightarrow>
                    (1, call (LoadCall factory ''fuzz'') (Load env factory ''fuzz'') w3))))))))))))))))))))))"

subsection \<open>\<open>Fuzz\<close> of package \<open>devices\<close>\<close>

text \<open>The harness touches neither the disk nor libcontainer's factories; the result of
  \<open>Transition\<close> is discarded.\<close>

definition Fuzz :: "('c, 'e, 'r) devices \<Rightarrow> byte list \<Rightarrow> int" where
  "Fuzz env data =
     (let c = NewConsumer env data;
          (str1, c) = GetString env c
      in (case str1 of None \<Rightarrow> - 1 | Some str1 \<Rightarrow>
      (case EmulatorFromList env str1 of None \<Rightarrow> - 1 | Some emu1 \<Rightarrow>
      (let (str2, c) = GetString env c
       in (case str2 of None \<Rightarrow> - 1 | Some str2 \<Rightarrow>
      (case EmulatorFromList env str2 of None \<Rightarrow> - 1 | Some emu2 \<Rightarrow>
      (let discarded = Transition env emu1 emu2
       in 1)))))))"

subsection \<open>Stand-ins for the libraries, for concrete runs\<close>

text \<open>
  The theorems below hold for every consumer, operating system and libcontainer. To run
  a harness on a concrete buffer the libraries need concrete stand-ins. The consumer
  \<open>demo_env\<close> uses is the remaining bytes: an integer is the next byte, a string is a
  length byte followed by that many bytes. Its \<open>initConfig\<close> is the bytes the consumer
  still holds, its \<open>Config\<close> asks for the systemd parent when the first byte is 1 and
  uses up four bytes, its factory is the driver option it was built with, and its
  container is the container's name. Nothing fails on its disk.
\<close>

definition fresh_world :: "('i, 'f, 'k) world" where
  "fresh_world = \<lparr>disk = {}, log_level = InfoLevel, trace = []\<rparr>"

definition demo_GetInt :: "byte list \<Rightarrow> int option \<times> byte list" where
  "demo_GetInt c = (case c of [] \<Rightarrow> (None, []) | b # bs \<Rightarrow> (Some (uint b), bs))"

definition demo_GetString :: "byte list \<Rightarrow> string option \<times> byte list" where
  "demo_GetString c =
     (case c of
        [] \<Rightarrow> (None, [])
      | n # bs \<Rightarrow>
          if unat n \<le> length bs
          then (Some (map (\<lambda>b. char_of (unat b)) (take (unat n) bs)), drop (unat n) bs)
          else (None, c))"

definition demo_Config :: "byte list \<Rightarrow> Config \<times> byte list" where
  "demo_Config c =
     (\<lparr>Rootfs = [], Namespaces = [],
       Cgroups = (if take 1 c = [1] then Some \<lparr>Parent = ''system.slice''\<rparr> else None)\<rparr>,
      drop 4 c)"

definition demo_env :: "(byte list, byte list, cgroup_option, string) env" where
  "demo_env =
     \<lparr>NewConsumer = (\<lambda>data. data), GetString = demo_GetString, GetInt = demo_GetInt,
      OpenFile_fails = (\<lambda>p. False), MkdirAll_fails = (\<lambda>p. False),
      Write_fails = (\<lambda>p. False), Open_fails = (\<lambda>p. False),
      Getppid = 1, Args0 = ''fuzzer'',
      GenerateStruct_initConfig = (\<lambda>c. (c, [])),
      GenerateStruct_Config = demo_Config,
      Init = (\<lambda>l d. d),
      New = (\<lambda>root opt d. (Inr opt, insert root d)),
      Create = (\<lambda>f name config' d. (Inr name, d)),
      State = (\<lambda>k d. d), Stats = (\<lambda>k d. d), OCIState = (\<lambda>k d. d),
      Processes = (\<lambda>k d. d), Destroy = (\<lambda>k d. d),
      Load = (\<lambda>f ident d. d),
      json_Marshal = (\<lambda>fs. Some []),
      SecureJoin = (\<lambda>root p. Some (root @ ''/'' @ p))\<rparr>"

text \<open>A rule-list parser that accepts every text but the empty one.\<close>

definition demo_devices :: "(byte list, string, unit) devices" where
  "demo_devices =
     \<lparr>NewConsumer = (\<lambda>data. data), GetString = demo_GetString, GetInt = demo_GetInt,
      EmulatorFromList = (\<lambda>s. if s = [] then None else Some s),
      Transition = (\<lambda>a b. Inr ())\<rparr>"

text \<open>
  Buffers for \<open>FuzzFactory\<close>, as the stand-in consumer reads them. \<open>factory_input\<close>
  holds \<open>ociVersion = "1.0.0x"\<close>, \<open>id = "abcde"\<close>, an empty \<open>status\<close>, \<open>pid = 7\<close> and
  \<open>bundle = "/a/b/c/d"\<close>; \<open>short_id_input\<close> differs in \<open>id = "abcd"\<close>.
\<close>

definition factory_input :: "byte list" where
  "factory_input =
     [6, 49, 46, 48, 46, 48, 120,
      5, 97, 98, 99, 100, 101,
      0,
      7,
      8, 47, 97, 47, 98, 47, 99, 47, 100]"

definition short_id_input :: "byte list" where
  "short_id_input =
     [6, 49, 46, 48, 46, 48, 120,
      4, 97, 98, 99, 100,
      0,
      7,
      8, 47, 97, 47, 98, 47, 99, 47, 100]"

text \<open>The same libraries on a disk where files can be created but every write fails
  (a full disk).\<close>

definition full_disk_env :: "(byte list, byte list, cgroup_option, string) env" where
  "full_disk_env = demo_env\<lparr>Write_fails := (\<lambda>p. True)\<rparr>"

text \<open>A world in which an earlier run has left \<open>/tmp/fuzzing\<close> behind.\<close>

definition used_world :: "('i, 'f, 'k) world" where
  "used_world = \<lparr>disk = {''/tmp'', ''/tmp/fuzzing''}, log_level = InfoLevel, trace = []\<rparr>"

text \<open>The same libraries with a consumer whose \<open>GetInt\<close> yields \<open>-8\<close>, and on a host
  where the systemd driver's factory cannot be built.\<close>

definition negative_selector_env :: "(byte list, byte list, cgroup_option, string) env" where
  "negative_selector_env = demo_env\<lparr>GetInt := (\<lambda>c. (Some (- 8), c))\<rparr>"

definition no_systemd_env :: "(byte list, byte list, cgroup_option, string) env" where
  "no_systemd_env =
     demo_env\<lparr>New := (\<lambda>root opt d. if opt = SystemdCgroups then (Inl EOther, d)
                                     else (Inr opt, insert root d))\<rparr>"

section \<open>Properties\<close>

subsection \<open>Facts about the \<open>os\<close> calls\<close>

lemma disk_os_RemoveAll [simp]:
  "q \<in> disk (os_RemoveAll p w) \<longleftrightarrow> q \<in> disk w \<and> q \<noteq> p \<and> \<not> prefix (p @ ''/'') q"
  by (auto simp: os_RemoveAll_def)

lemma trace_os_RemoveAll [simp]: "trace (os_RemoveAll p w) = trace w"
  by (simp add: os_RemoveAll_def)

lemma log_level_os_RemoveAll [simp]: "log_level (os_RemoveAll p w) = log_level w"
  by (simp add: os_RemoveAll_def)

lemma deferred_simps [simp]:
  "fst (deferred g r) = fst r" "snd (deferred g r) = g (snd r)"
  by (simp_all add: deferred_def)

lemma parents_root: "parents ''/tmp/fuzz-root'' = [''/tmp'']"
  by code_simp

lemma parents_work: "parents ''/tmp/fuzz-root/fuzz'' = [''/tmp'', ''/tmp/fuzz-root'']"
  by code_simp

lemma parents_fuzzing: "parents ''/tmp/fuzzing'' = [''/tmp'']"
  by code_simp

lemma os_MkdirAll_Inr:
  "os_MkdirAll env p w = Inr w' \<longleftrightarrow>
     \<not> MkdirAll_fails env p \<and> w' = w\<lparr>disk := insert p (set (parents p) \<union> disk w)\<rparr>"
  by (auto simp: os_MkdirAll_def)

lemma os_MkdirAll_Inl: "os_MkdirAll env p w = Inl e \<longleftrightarrow> MkdirAll_fails env p \<and> e = EOther"
  by (auto simp: os_MkdirAll_def)

text \<open>\<open>createFiles\<close> on the one-element list \<open>FuzzFactory\<close> passes: a failed write
  comes after the file was created.\<close>

lemma createFiles_single:
  "createFiles env [p] b w =
     (if OpenFile_fails env p then (Some (ErrorString ''Could not create file''), w)
      else if Write_fails env p
        then (Some (ErrorString ''Could not write to file''), w\<lparr>disk := insert p (disk w)\<rparr>)
        else (None, w\<lparr>disk := insert p (disk w)\<rparr>))"
  by (simp add: os_OpenFile_def os_Write_def)

lemmas demo_simps =
  demo_env_def demo_GetString_def demo_GetInt_def demo_Config_def fresh_world_def
  parents_root parents_work parents_fuzzing

text \<open>Go's \<open>%\<close> truncates towards zero; it is zero exactly when the flooring \<open>mod\<close> is.\<close>

lemma smod_zero_iff: "(n::int) smod k = 0 \<longleftrightarrow> n mod k = 0"
proof -
  have "n smod k = 0 \<longleftrightarrow> n = 0 \<or> \<bar>n\<bar> mod \<bar>k\<bar> = 0"
    by (simp add: smod_int_alt_def sgn_eq_0_iff)
  also have "\<dots> \<longleftrightarrow> k dvd n"
    by (auto simp: mod_eq_0_iff_dvd)
  finally show ?thesis
    by (simp add: mod_eq_0_iff_dvd)
qed

text \<open>The config \<open>add_Namespaces\<close> returns, field by field.\<close>

lemma add_Namespaces_record:
  "add_Namespaces n (cfg\<lparr>Rootfs := root\<rparr>) =
     \<lparr>Rootfs = root,
      Namespaces = (if n mod 3 = 0 then [\<lparr>Type = NEWUTS, Path = []\<rparr>]
                    else if n mod 4 = 0 then [\<lparr>Type = NEWNS, Path = []\<rparr>]
                    else []),
      Cgroups = Cgroups cfg\<rparr>"
  by (simp add: add_Namespaces_def smod_zero_iff)

subsection \<open>Inputs below the minimum length\<close>

text \<open>
  Claim C3. A buffer shorter than the harness's minimum length (5 bytes for
  \<open>FuzzInit\<close>, 4 for \<open>FuzzStateApi\<close>, 20 for \<open>FuzzFactory\<close>) makes the harness return
  \<open>-1\<close> and leaves the disk as it was: \<open>FuzzInit\<close> and \<open>FuzzFactory\<close> return the
  world unchanged, and \<open>FuzzStateApi\<close> has only set the log level.
\<close>

theorem short_input_rejected_without_writes:
  "(length data < 5 \<longrightarrow> FuzzInit env data w = (- 1, w)) \<and>
   (length data < 4 \<longrightarrow> FuzzStateApi env data w = (- 1, w\<lparr>log_level := PanicLevel\<rparr>)) \<and>
   (length data < 20 \<longrightarrow> FuzzFactory env data w = (- 1, w))"
  by (simp add: FuzzInit_def FuzzStateApi_def FuzzFactory_def logrus_SetLevel_def)

theorem short_input_rejected_without_writes_witness:
  "length [1, 2, 3 :: byte] < 4 \<and>
   FuzzInit demo_env [1, 2, 3] fresh_world = (- 1, fresh_world) \<and>
   FuzzStateApi demo_env [1, 2, 3] fresh_world = (- 1, fresh_world\<lparr>log_level := PanicLevel\<rparr>) \<and>
   FuzzFactory demo_env [1, 2, 3] fresh_world = (- 1, fresh_world)"
  using short_input_rejected_without_writes [of "[1, 2, 3]" demo_env fresh_world]
  by simp

subsection \<open>Harnesses that never return 0\<close>

text \<open>
  Claim C10. \<open>FuzzInit\<close> returns \<open>-1\<close> when the buffer is shorter than 5 bytes or one of
  the two scratch files cannot be opened, and 1 otherwise. \<open>Fuzz\<close> of package
  \<open>devices\<close> returns 1 when both strings are extracted and both parse, and \<open>-1\<close>
  otherwise. Neither ever returns 0.
\<close>

theorem FuzzInit_and_Fuzz_never_neutral:
  "fst (FuzzInit env data w) =
     (if length data < 5 \<or> OpenFile_fails env ''pipe.txt'' \<or> OpenFile_fails env ''consoleSocket.txt''
      then - 1 else 1) \<and>
   fst (FuzzInit env data w) \<noteq> 0 \<and>
   Fuzz denv d =
     (if \<exists>s1 c1 e1 s2 c2 e2.
           GetString denv (NewConsumer denv d) = (Some s1, c1) \<and> EmulatorFromList denv s1 = Some e1 \<and>
           GetString denv c1 = (Some s2, c2) \<and> EmulatorFromList denv s2 = Some e2
      then 1 else - 1) \<and>
   Fuzz denv d \<noteq> 0"
proof -
  have init: "fst (FuzzInit env data w) =
     (if length data < 5 \<or> OpenFile_fails env ''pipe.txt'' \<or> OpenFile_fails env ''consoleSocket.txt''
      then - 1 else 1)"
    by (simp add: FuzzInit_def os_OpenFile_def Let_def split: prod.splits)
  have fuzz: "Fuzz denv d =
     (if \<exists>s1 c1 e1 s2 c2 e2.
           GetString denv (NewConsumer denv d) = (Some s1, c1) \<and> EmulatorFromList denv s1 = Some e1 \<and>
           GetString denv c1 = (Some s2, c2) \<and> EmulatorFromList denv s2 = Some e2
      then 1 else - 1)"
    by (auto simp: Fuzz_def Let_def split: prod.splits option.splits)
  have "fst (FuzzInit env data w) \<noteq> 0"
    unfolding init by simp
  moreover have "Fuzz denv d \<noteq> 0"
    unfolding fuzz by simp
  ultimately show ?thesis
    using init fuzz by blast
qed

theorem FuzzInit_and_Fuzz_never_neutral_witness:
  "fst (FuzzInit demo_env [1, 2, 3, 4, 5] fresh_world) = 1 \<and>
   Fuzz demo_devices [1, 65, 0] = - 1"
  using FuzzInit_and_Fuzz_never_neutral [of demo_env "[1, 2, 3, 4, 5]" fresh_world demo_devices "[1, 65, 0]"]
  by (simp add: demo_env_def demo_devices_def demo_GetString_def)

subsection \<open>Scratch files\<close>

text \<open>No scratch file of \<open>FuzzInit\<close> outlives the call, on any path: a \<open>pipe.txt\<close> or
  \<open>consoleSocket.txt\<close> on the disk afterwards was there before.\<close>

lemma FuzzInit_cleanup:
  assumes "p = ''pipe.txt'' \<or> p = ''consoleSocket.txt''"
    and "p \<in> disk (snd (FuzzInit env data w))"
  shows "p \<in> disk w"
  using assms
  by (auto simp: FuzzInit_def os_OpenFile_def call_def Let_def split: if_splits prod.splits)

text \<open>The same holds for \<open>state.json\<close> in \<open>FuzzFactory\<close>, on every path, if the write
  to it does not fail.\<close>

lemma FuzzFactory_cleanup:
  assumes "\<not> Write_fails env ''/tmp/fuzz-root/fuzz/state.json''"
    and "''/tmp/fuzz-root/fuzz/state.json'' \<in> disk (snd (FuzzFactory env data w))"
  shows "''/tmp/fuzz-root/fuzz/state.json'' \<in> disk w"
  using assms
  by (auto simp: FuzzFactory_def Let_def os_MkdirAll_Inr os_MkdirAll_Inl createFiles_single call_def
      parents_root parents_work
      simp del: createFiles.simps
      split: sum.splits prod.splits option.splits if_splits)

text \<open>The path on which it fails, for every consumer and every library: the record
  passes the length filter and is serialized, the file is created, and the write fails.\<close>

lemma FuzzFactory_leaks_on_write_failure:
  assumes "20 \<le> length data"
    and "\<not> MkdirAll_fails env ''/tmp/fuzz-root''"
    and "\<not> MkdirAll_fails env ''/tmp/fuzz-root/fuzz''"
    and "GetString env (NewConsumer env data) = (Some ociVersion, c1)"
    and "GetString env c1 = (Some ident, c2)"
    and "GetString env c2 = (Some status, c3)"
    and "GetInt env c3 = (Some pid, c4)"
    and "GetString env c4 = (Some bundle, c5)"
    and "5 \<le> length ociVersion" "5 \<le> length ident" "5 \<le> length bundle"
    and "json_Marshal env \<lparr>OciVersion = ociVersion, Id' = ident, Status = status, Pid = pid,
                            Bundle = bundle, Annotations = [''fuzz'']\<rparr> = Some b"
    and "\<not> OpenFile_fails env ''/tmp/fuzz-root/fuzz/state.json''"
    and "Write_fails env ''/tmp/fuzz-root/fuzz/state.json''"
  shows "fst (FuzzFactory env data w) = 0 \<and>
         ''/tmp/fuzz-root/fuzz/state.json'' \<in> disk (snd (FuzzFactory env data w))"
  using assms
  by (simp add: FuzzFactory_def Let_def os_MkdirAll_def createFiles_single del: createFiles.simps)

text \<open>
  Claim C1 says that after a harness returns, on every exit path, no scratch file it
  created remains. \<open>FuzzFactory\<close> breaks this on one path: \<open>createFiles\<close> creates
  \<open>state.json\<close> and then fails to write it, \<open>FuzzFactory\<close> returns 0 on that error,
  and the removal is deferred only after that return. On \<open>factory_input\<close> with a disk
  that refuses the write, the harness returns 0 and \<open>state.json\<close>, absent before, is
  on the disk.
\<close>

theorem FuzzFactory_write_failure_leaves_state_json:
  "fst (FuzzFactory full_disk_env factory_input fresh_world) = 0 \<and>
   ''/tmp/fuzz-root/fuzz/state.json'' \<in> disk (snd (FuzzFactory full_disk_env factory_input fresh_world)) \<and>
   ''/tmp/fuzz-root/fuzz/state.json'' \<notin> disk (fresh_world :: (byte list, cgroup_option, string) world)"
  by (simp add: FuzzFactory_def Let_def os_MkdirAll_def createFiles_single demo_simps
      full_disk_env_def factory_input_def del: createFiles.simps)

subsection \<open>What \<open>FuzzInit\<close> hands to \<open>Init\<close>\<close>

text \<open>
  Claim C5, amended. When \<open>FuzzInit\<close> gets past the length check and opens both
  scratch files, it calls \<open>Init\<close> once, with \<open>fifoFd\<close> the integer value of the first
  byte of the buffer, which lies in \<open>[0, 255]\<close>, and with the \<open>initConfig\<close> that
  \<open>GenerateStruct\<close> fills from a consumer over the whole buffer, first byte included.
\<close>

theorem FuzzInit_fifoFd_and_config:
  assumes "5 \<le> length data"
    and "\<not> OpenFile_fails env ''pipe.txt''"
    and "\<not> OpenFile_fails env ''consoleSocket.txt''"
  shows "trace (snd (FuzzInit env data w)) =
           trace w @ [InitCall \<lparr>pipe = ''pipe.txt'', consoleSocket = ''consoleSocket.txt'',
                               parentPid = Getppid env,
                               config = fst (GenerateStruct_initConfig env (NewConsumer env data)),
                               fifoFd = uint (data ! 0)\<rparr>] \<and>
         0 \<le> uint (data ! 0) \<and> uint (data ! 0) \<le> 255"
proof -
  have "uint (data ! 0) < 2 ^ 8"
    using uint_lt2p [of "data ! 0"] by simp
  then have "uint (data ! 0) \<le> 255"
    by simp
  then show ?thesis
    using assms
    by (simp add: FuzzInit_def os_OpenFile_def call_def Let_def split: prod.splits)
qed

theorem FuzzInit_fifoFd_and_config_witness:
  "5 \<le> length [7, 2, 3, 4, 5 :: byte] \<and>
   \<not> OpenFile_fails demo_env ''pipe.txt'' \<and> \<not> OpenFile_fails demo_env ''consoleSocket.txt'' \<and>
   trace (snd (FuzzInit demo_env [7, 2, 3, 4, 5] fresh_world)) =
     [InitCall \<lparr>pipe = ''pipe.txt'', consoleSocket = ''consoleSocket.txt'', parentPid = 1,
                config = [7, 2, 3, 4, 5], fifoFd = 7\<rparr>]"
proof -
  have len: "5 \<le> length [7, 2, 3, 4, 5 :: byte]"
    by simp
  have pipe_ok: "\<not> OpenFile_fails demo_env ''pipe.txt''"
    by (simp add: demo_env_def)
  have console_ok: "\<not> OpenFile_fails demo_env ''consoleSocket.txt''"
    by (simp add: demo_env_def)
  show ?thesis
    using FuzzInit_fifoFd_and_config [OF len pipe_ok console_ok, of fresh_world] pipe_ok console_ok
    by (simp add: demo_env_def fresh_world_def)
qed

text \<open>The claim as stated has the config filled from the bytes after the first one. With
  the stand-in generator, whose struct is the bytes it was given, the buffer
  \<open>[7, 2, 3, 4, 5]\<close> does not lead to the call that reading predicts.\<close>

theorem FuzzInit_config_from_remainder_counterexample:
  "trace (snd (FuzzInit demo_env [7, 2, 3, 4, 5] fresh_world)) \<noteq>
     [InitCall \<lparr>pipe = ''pipe.txt'', consoleSocket = ''consoleSocket.txt'',
                parentPid = Getppid demo_env,
                config = fst (GenerateStruct_initConfig demo_env
                                (NewConsumer demo_env (tl [7, 2, 3, 4, 5]))),
                fifoFd = uint (7 :: byte)\<rparr>]"
  by (simp add: FuzzInit_def os_OpenFile_def call_def Let_def demo_env_def fresh_world_def)

subsection \<open>Exhausted input in \<open>FuzzStateApi\<close>\<close>




subsection \<open>The length filter of \<open>FuzzFactory\<close>\<close>

text \<open>
  Claim C8. In \<open>FuzzFactory\<close>, once the five fields are extracted: if \<open>ociVersion\<close>,
  \<open>id\<close> or \<open>bundle\<close> is shorter than 5 (Go's \<open>len\<close>, a count of bytes), the harness
  returns 0 in the world the two \<open>MkdirAll\<close> calls left, in which \<open>state.json\<close> exists
  only if it did before, so nothing was serialized or written. If the three are at
  least 5 long, then whatever \<open>status\<close> and \<open>pid\<close> are, the run goes on: when the
  record is serialized, written and found again, the harness returns 1.
\<close>

theorem FuzzFactory_length_filter:
  assumes "20 \<le> length data"
    and "os_MkdirAll env ''/tmp/fuzz-root'' w = Inr w1"
    and "os_MkdirAll env ''/tmp/fuzz-root/fuzz'' w1 = Inr w2"
    and "GetString env (NewConsumer env data) = (Some ociVersion, c1)"
    and "GetString env c1 = (Some ident, c2)"
    and "GetString env c2 = (Some status, c3)"
    and "GetInt env c3 = (Some pid, c4)"
    and "GetString env c4 = (Some bundle, c5)"
  shows "(length ociVersion < 5 \<or> length ident < 5 \<or> length bundle < 5 \<longrightarrow>
            FuzzFactory env data w = (0, w2) \<and>
            (''/tmp/fuzz-root/fuzz/state.json'' \<in> disk w2 \<longleftrightarrow>
               ''/tmp/fuzz-root/fuzz/state.json'' \<in> disk w)) \<and>
         (5 \<le> length ociVersion \<and> 5 \<le> length ident \<and> 5 \<le> length bundle \<and>
          json_Marshal env \<lparr>OciVersion = ociVersion, Id' = ident, Status = status, Pid = pid,
                            Bundle = bundle, Annotations = [''fuzz'']\<rparr> = Some b \<and>
          \<not> OpenFile_fails env ''/tmp/fuzz-root/fuzz/state.json'' \<and>
          \<not> Write_fails env ''/tmp/fuzz-root/fuzz/state.json'' \<and>
          SecureJoin env ''/tmp/fuzz-root/fuzz'' ''state.json'' =
            Some ''/tmp/fuzz-root/fuzz/state.json'' \<longrightarrow>
            fst (FuzzFactory env data w) = 1)"
proof -
  have d2: "disk w2 = insert ''/tmp/fuzz-root/fuzz'' (set (parents ''/tmp/fuzz-root/fuzz'') \<union>
              insert ''/tmp/fuzz-root'' (set (parents ''/tmp/fuzz-root'') \<union> disk w))"
    using assms(2,3) by (auto simp: os_MkdirAll_def split: if_splits)
  have filtered: "FuzzFactory env data w = (0, w2)"
    if "length ociVersion < 5 \<or> length ident < 5 \<or> length bundle < 5"
    using assms that by (simp add: FuzzFactory_def Let_def)
  have untouched: "''/tmp/fuzz-root/fuzz/state.json'' \<in> disk w2 \<longleftrightarrow>
                   ''/tmp/fuzz-root/fuzz/state.json'' \<in> disk w"
    by (simp add: d2 parents_root parents_work)
  have passed: "fst (FuzzFactory env data w) = 1"
    if "5 \<le> length ociVersion" "5 \<le> length ident" "5 \<le> length bundle"
      "json_Marshal env \<lparr>OciVersion = ociVersion, Id' = ident, Status = status, Pid = pid,
                          Bundle = bundle, Annotations = [''fuzz'']\<rparr> = Some b"
      "\<not> OpenFile_fails env ''/tmp/fuzz-root/fuzz/state.json''"
      "\<not> Write_fails env ''/tmp/fuzz-root/fuzz/state.json''"
      "SecureJoin env ''/tmp/fuzz-root/fuzz'' ''state.json'' = Some ''/tmp/fuzz-root/fuzz/state.json''"
    using assms that
    by (simp add: FuzzFactory_def Let_def os_OpenFile_def os_Write_def os_Open_def IsNotExist_def)
  show ?thesis
    using filtered untouched passed by blast
qed

theorem FuzzFactory_length_filter_witness:
  "fst (GetString demo_env (snd (GetString demo_env short_id_input))) = Some (map (\<lambda>b. char_of (unat b)) [97, 98, 99, 100 :: byte]) \<and>
   FuzzFactory demo_env short_id_input fresh_world =
     (0, \<lparr>disk = {''/tmp/fuzz-root/fuzz'', ''/tmp'', ''/tmp/fuzz-root''},
          log_level = InfoLevel, trace = []\<rparr>) \<and>
   fst (GetString demo_env (drop 13 factory_input)) = Some [] \<and>
   fst (FuzzFactory demo_env factory_input fresh_world) = 1"
proof -
  let ?w1 = "\<lparr>disk = {''/tmp/fuzz-root'', ''/tmp''}, log_level = InfoLevel,
              trace = [] :: (byte list, cgroup_option, string) event list\<rparr>"
  let ?w2 = "\<lparr>disk = {''/tmp/fuzz-root/fuzz'', ''/tmp'', ''/tmp/fuzz-root''}, log_level = InfoLevel,
              trace = [] :: (byte list, cgroup_option, string) event list\<rparr>"
  let ?chars = "map (\<lambda>b :: byte. char_of (unat b) :: char)"
  have mk1: "os_MkdirAll demo_env ''/tmp/fuzz-root'' fresh_world = Inr ?w1"
    by (simp add: os_MkdirAll_def demo_simps)
  have mk2: "os_MkdirAll demo_env ''/tmp/fuzz-root/fuzz'' ?w1 = Inr ?w2"
    by (auto simp: os_MkdirAll_def demo_simps)
  have s1: "GetString demo_env (NewConsumer demo_env short_id_input) =
              (Some (?chars [49, 46, 48, 46, 48, 120]), drop 7 short_id_input)"
    by (simp add: demo_simps short_id_input_def factory_input_def)
  have s2: "GetString demo_env (drop 7 short_id_input) =
              (Some (?chars [97, 98, 99, 100]), drop 12 short_id_input)"
    by (simp add: demo_simps short_id_input_def factory_input_def)
  have s3: "GetString demo_env (drop 12 short_id_input) = (Some [], drop 13 short_id_input)"
    by (simp add: demo_simps short_id_input_def factory_input_def)
  have s4: "GetInt demo_env (drop 13 short_id_input) = (Some 7, drop 14 short_id_input)"
    by (simp add: demo_simps short_id_input_def factory_input_def)
  have s5: "GetString demo_env (drop 14 short_id_input) =
              (Some (?chars [47, 97, 47, 98, 47, 99, 47, 100]), [])"
    by (simp add: demo_simps short_id_input_def factory_input_def)
  have short: "FuzzFactory demo_env short_id_input fresh_world = (0, ?w2)"
    using FuzzFactory_length_filter [OF _ mk1 mk2 s1 s2 s3 s4 s5]
    by (simp add: short_id_input_def)
  have f1: "GetString demo_env (NewConsumer demo_env factory_input) =
              (Some (?chars [49, 46, 48, 46, 48, 120]), drop 7 factory_input)"
    by (simp add: demo_simps short_id_input_def factory_input_def)
  have f2: "GetString demo_env (drop 7 factory_input) =
              (Some (?chars [97, 98, 99, 100, 101]), drop 13 factory_input)"
    by (simp add: demo_simps short_id_input_def factory_input_def)
  have f3: "GetString demo_env (drop 13 factory_input) = (Some [], drop 14 factory_input)"
    by (simp add: demo_simps short_id_input_def factory_input_def)
  have f4: "GetInt demo_env (drop 14 factory_input) = (Some 7, drop 15 factory_input)"
    by (simp add: demo_simps short_id_input_def factory_input_def)
  have f5: "GetString demo_env (drop 15 factory_input) =
              (Some (?chars [47, 97, 47, 98, 47, 99, 47, 100]), [])"
    by (simp add: demo_simps short_id_input_def factory_input_def)
  have full: "fst (FuzzFactory demo_env factory_input fresh_world) = 1"
    using FuzzFactory_length_filter [OF _ mk1 mk2 f1 f2 f3 f4 f5, of "[]"]
    by (simp add: factory_input_def demo_env_def)
  show ?thesis
    using short full s1 s2 f3 by (simp add: demo_env_def)
qed

subsection \<open>The cgroup driver\<close>

text \<open>\<open>wants_systemd\<close> holds exactly when the cgroup section is present and its parent
  is \<open>system.slice\<close>.\<close>

lemma wants_systemd_iff:
  "wants_systemd cfg \<longleftrightarrow> map_option Parent (Cgroups cfg) = Some ''system.slice''"
  by (auto simp: wants_systemd_def split: option.splits)

text \<open>Every path through \<open>newContainerWithName\<close>, by the results of the two \<open>New\<close> calls.\<close>

lemma newContainerWithName_cases:
  assumes "New env root Cgroupfs (disk w) = (r0, d1)"
    and "New env root SystemdCgroups d1 = (r1, d2)"
  shows "trace (snd (newContainerWithName env name root cfg w)) =
           trace w @
           (case r0 of
              Inl e \<Rightarrow> [NewCall root Cgroupfs]
            | Inr f0 \<Rightarrow>
                if map_option Parent (Cgroups cfg) = Some ''system.slice''
                then (case r1 of
                        Inl e \<Rightarrow> [NewCall root Cgroupfs, NewCall root SystemdCgroups]
                      | Inr f1 \<Rightarrow> [NewCall root Cgroupfs, NewCall root SystemdCgroups,
                                   CreateCall f1 name cfg])
                else [NewCall root Cgroupfs, CreateCall f0 name cfg]) \<and>
         fst (newContainerWithName env name root cfg w) =
           (case r0 of
              Inl e \<Rightarrow> Inl e
            | Inr f0 \<Rightarrow>
                if map_option Parent (Cgroups cfg) = Some ''system.slice''
                then (case r1 of
                        Inl e \<Rightarrow> Inl e
                      | Inr f1 \<Rightarrow> fst (Create env f1 name cfg d2))
                else fst (Create env f0 name cfg d1))"
  unfolding wants_systemd_iff [symmetric]
  using assms
  by (cases r0; cases r1; cases "wants_systemd cfg")
    (simp_all add: newContainerWithName_def lib_New_def lib_Create_def split: prod.splits)

text \<open>
  Claim C9, amended. \<open>newContainerWithName\<close> first builds the cgroupfs driver's
  factory and returns its error if that fails. If the config has a cgroup section
  whose parent is \<open>system.slice\<close>, it then builds the systemd driver's factory,
  returns its error if that fails, and otherwise creates the container through it. In
  every other case, a config without cgroup section included, it creates the container
  through the cgroupfs factory. So the systemd factory is used exactly when the parent
  is \<open>system.slice\<close> and both factories could be built; \<open>Create\<close> gets the name and
  the config unchanged, and its result is the result of the function.
\<close>

theorem newContainerWithName_driver:
  "let systemd = (map_option Parent (Cgroups cfg) = Some ''system.slice'');
       (r0, d1) = New env root Cgroupfs (disk w);
       (r1, d2) = New env root SystemdCgroups d1
   in trace (snd (newContainerWithName env name root cfg w)) =
        trace w @
        (case r0 of
           Inl e \<Rightarrow> [NewCall root Cgroupfs]
         | Inr f0 \<Rightarrow>
             if systemd
             then (case r1 of
                     Inl e \<Rightarrow> [NewCall root Cgroupfs, NewCall root SystemdCgroups]
                   | Inr f1 \<Rightarrow> [NewCall root Cgroupfs, NewCall root SystemdCgroups,
                                CreateCall f1 name cfg])
             else [NewCall root Cgroupfs, CreateCall f0 name cfg]) \<and>
      fst (newContainerWithName env name root cfg w) =
        (case r0 of
           Inl e \<Rightarrow> Inl e
         | Inr f0 \<Rightarrow>
             if systemd
             then (case r1 of
                     Inl e \<Rightarrow> Inl e
                   | Inr f1 \<Rightarrow> fst (Create env f1 name cfg d2))
             else fst (Create env f0 name cfg d1))"
proof -
  obtain r0 d1 where new0: "New env root Cgroupfs (disk w) = (r0, d1)"
    by (cases "New env root Cgroupfs (disk w)")
  obtain r1 d2 where new1: "New env root SystemdCgroups d1 = (r1, d2)"
    by (cases "New env root SystemdCgroups d1")
  show ?thesis
    unfolding Let_def new0 new1 prod.case
    by (rule newContainerWithName_cases [OF new0 new1])
qed

theorem newContainerWithName_driver_witness:
  "trace (snd (newContainerWithName demo_env ''abc'' ''/tmp/fuzzing''
                 \<lparr>Rootfs = ''/tmp/fuzzing'', Namespaces = [],
                   Cgroups = Some \<lparr>Parent = ''system.slice''\<rparr>\<rparr> fresh_world)) =
     [NewCall ''/tmp/fuzzing'' Cgroupfs, NewCall ''/tmp/fuzzing'' SystemdCgroups,
      CreateCall SystemdCgroups ''abc''
        \<lparr>Rootfs = ''/tmp/fuzzing'', Namespaces = [],
          Cgroups = Some \<lparr>Parent = ''system.slice''\<rparr>\<rparr>] \<and>
   trace (snd (newContainerWithName demo_env ''abc'' ''/tmp/fuzzing''
                 \<lparr>Rootfs = ''/tmp/fuzzing'', Namespaces = [], Cgroups = None\<rparr> fresh_world)) =
     [NewCall ''/tmp/fuzzing'' Cgroupfs,
      CreateCall Cgroupfs ''abc'' \<lparr>Rootfs = ''/tmp/fuzzing'', Namespaces = [], Cgroups = None\<rparr>] \<and>
   fst (newContainerWithName no_systemd_env ''abc'' ''/tmp/fuzzing''
          \<lparr>Rootfs = ''/tmp/fuzzing'', Namespaces = [],
            Cgroups = Some \<lparr>Parent = ''system.slice''\<rparr>\<rparr> fresh_world) = Inl EOther"
  using newContainerWithName_driver [of
      "\<lparr>Rootfs = ''/tmp/fuzzing'', Namespaces = [], Cgroups = Some \<lparr>Parent = ''system.slice''\<rparr>\<rparr>"
      demo_env "''/tmp/fuzzing''" fresh_world "''abc''"]
    newContainerWithName_driver [of
      "\<lparr>Rootfs = ''/tmp/fuzzing'', Namespaces = [], Cgroups = None\<rparr>"
      demo_env "''/tmp/fuzzing''" fresh_world "''abc''"]
    newContainerWithName_driver [of
      "\<lparr>Rootfs = ''/tmp/fuzzing'', Namespaces = [], Cgroups = Some \<lparr>Parent = ''system.slice''\<rparr>\<rparr>"
      no_systemd_env "''/tmp/fuzzing''" fresh_world "''abc''"]
  by (simp add: Let_def no_systemd_env_def demo_env_def fresh_world_def)

text \<open>The claim as stated has the container created through the systemd factory whenever
  the parent is \<open>system.slice\<close>. Where that factory cannot be built, the error is
  returned and \<open>Create\<close> is never called.\<close>

theorem newContainerWithName_systemd_unavailable_counterexample:
  "map_option Parent (Cgroups \<lparr>Rootfs = ''/tmp/fuzzing'', Namespaces = [],
                               Cgroups = Some \<lparr>Parent = ''system.slice''\<rparr>\<rparr>) = Some ''system.slice'' \<and>
   fst (newContainerWithName no_systemd_env ''abc'' ''/tmp/fuzzing''
          \<lparr>Rootfs = ''/tmp/fuzzing'', Namespaces = [],
            Cgroups = Some \<lparr>Parent = ''system.slice''\<rparr>\<rparr> fresh_world) = Inl EOther \<and>
   trace (snd (newContainerWithName no_systemd_env ''abc'' ''/tmp/fuzzing''
          \<lparr>Rootfs = ''/tmp/fuzzing'', Namespaces = [],
            Cgroups = Some \<lparr>Parent = ''system.slice''\<rparr>\<rparr> fresh_world)) =
     [NewCall ''/tmp/fuzzing'' Cgroupfs, NewCall ''/tmp/fuzzing'' SystemdCgroups]"
  by (simp add: newContainerWithName_def lib_New_def lib_Create_def wants_systemd_def
      no_systemd_env_def demo_env_def fresh_world_def)

text \<open>In \<open>FuzzStateApi\<close> the container is created with the extracted name and with the
  generated config, its root forced to \<open>/tmp/fuzzing\<close> and its namespaces chosen by the
  selector; a created container is queried four times and then destroyed, and the root
  directory is removed last.\<close>

lemma FuzzStateApi_exercises_container:
  assumes "4 \<le> length data"
    and "\<not> MkdirAll_fails env ''/tmp/fuzzing''"
    and "GenerateStruct_Config env (NewConsumer env data) = (cfg, c1)"
    and "GetInt env c1 = (Some n, c2)"
    and "GetString env c2 = (Some name, c3)"
    and "newContainerWithName env name ''/tmp/fuzzing''
           (add_Namespaces n (cfg\<lparr>Rootfs := ''/tmp/fuzzing''\<rparr>))
           (w\<lparr>disk := insert ''/tmp/fuzzing'' (insert ''/tmp'' (disk w)), log_level := PanicLevel\<rparr>)
         = (r, w2)"
  shows "fst (FuzzStateApi env data w) = (case r of Inl e \<Rightarrow> 0 | Inr k \<Rightarrow> 1) \<and>
         trace (snd (FuzzStateApi env data w)) =
           trace w2 @ (case r of Inl e \<Rightarrow> []
                       | Inr k \<Rightarrow> [StateCall k, StatsCall k, OCIStateCall k, ProcessesCall k,
                                  DestroyCall k])"
proof -
  have w1: "(logrus_SetLevel PanicLevel w)\<lparr>disk := insert ''/tmp/fuzzing''
              (set (parents ''/tmp/fuzzing'') \<union> disk (logrus_SetLevel PanicLevel w))\<rparr> =
            w\<lparr>disk := insert ''/tmp/fuzzing'' (insert ''/tmp'' (disk w)), log_level := PanicLevel\<rparr>"
    by (simp add: logrus_SetLevel_def parents_fuzzing)
  show ?thesis
    using assms
    by (cases r)
      (simp_all add: FuzzStateApi_def newTestRoot_def os_MkdirAll_def Let_def w1 call_def)
qed

subsection \<open>The namespace selector\<close>

text \<open>
  Claim C2. When \<open>FuzzStateApi\<close> has extracted the selector \<open>n\<close> and the name, the
  config it hands to \<open>newContainerWithName\<close> has the UTS-only namespace list when
  \<open>n mod 3 = 0\<close>, otherwise the mount-only list when \<open>n mod 4 = 0\<close>, otherwise the
  empty list, for every integer \<open>n\<close>, negative ones included; its root is
  \<open>/tmp/fuzzing\<close> and its cgroup section is the generated one. The harness returns 1
  and queries the container if that call creates one, and returns 0 if not. The three
  lists differ, so every integer has exactly one outcome; 12 takes the first branch.
\<close>

theorem FuzzStateApi_namespace_selection:
  assumes "4 \<le> length data"
    and "\<not> MkdirAll_fails env ''/tmp/fuzzing''"
    and "GenerateStruct_Config env (NewConsumer env data) = (cfg, c1)"
    and "GetInt env c1 = (Some n, c2)"
    and "GetString env c2 = (Some name, c3)"
  shows "let selected = (if n mod 3 = 0 then [\<lparr>Type = NEWUTS, Path = []\<rparr>]
                         else if n mod 4 = 0 then [\<lparr>Type = NEWNS, Path = []\<rparr>]
                         else []);
             made = newContainerWithName env name ''/tmp/fuzzing''
                      \<lparr>Rootfs = ''/tmp/fuzzing'', Namespaces = selected, Cgroups = Cgroups cfg\<rparr>
                      (w\<lparr>disk := insert ''/tmp/fuzzing'' (insert ''/tmp'' (disk w)),
                         log_level := PanicLevel\<rparr>)
         in fst (FuzzStateApi env data w) = (case fst made of Inl e \<Rightarrow> 0 | Inr k \<Rightarrow> 1) \<and>
            trace (snd (FuzzStateApi env data w)) =
              trace (snd made) @
              (case fst made of Inl e \<Rightarrow> []
               | Inr k \<Rightarrow> [StateCall k, StatsCall k, OCIStateCall k, ProcessesCall k, DestroyCall k]) \<and>
            (\<exists>!s. s \<in> {[\<lparr>Type = NEWUTS, Path = []\<rparr>], [\<lparr>Type = NEWNS, Path = []\<rparr>], []} \<and>
                   selected = s)"
proof -
  obtain r w2 where made: "newContainerWithName env name ''/tmp/fuzzing''
           (add_Namespaces n (cfg\<lparr>Rootfs := ''/tmp/fuzzing''\<rparr>))
           (w\<lparr>disk := insert ''/tmp/fuzzing'' (insert ''/tmp'' (disk w)), log_level := PanicLevel\<rparr>)
         = (r, w2)"
    by (cases "newContainerWithName env name ''/tmp/fuzzing''
           (add_Namespaces n (cfg\<lparr>Rootfs := ''/tmp/fuzzing''\<rparr>))
           (w\<lparr>disk := insert ''/tmp/fuzzing'' (insert ''/tmp'' (disk w)), log_level := PanicLevel\<rparr>)")
  note run = FuzzStateApi_exercises_container [OF assms made]
  show ?thesis
    using run made unfolding add_Namespaces_record Let_def
    by auto
qed

lemma demo_name: "map (\<lambda>b. char_of (unat b)) [65, 66, 67 :: byte] = ''ABC''"
  by code_simp

theorem FuzzStateApi_namespace_selection_witness:
  "trace (snd (FuzzStateApi demo_env [1, 0, 0, 0, 12, 3, 65, 66, 67] fresh_world)) =
     [NewCall ''/tmp/fuzzing'' Cgroupfs, NewCall ''/tmp/fuzzing'' SystemdCgroups,
      CreateCall SystemdCgroups ''ABC''
        \<lparr>Rootfs = ''/tmp/fuzzing'', Namespaces = [\<lparr>Type = NEWUTS, Path = []\<rparr>],
          Cgroups = Some \<lparr>Parent = ''system.slice''\<rparr>\<rparr>,
      StateCall ''ABC'', StatsCall ''ABC'', OCIStateCall ''ABC'', ProcessesCall ''ABC'',
      DestroyCall ''ABC''] \<and>
   trace (snd (FuzzStateApi negative_selector_env [0, 0, 0, 0, 3, 65, 66, 67] fresh_world)) =
     [NewCall ''/tmp/fuzzing'' Cgroupfs,
      CreateCall Cgroupfs ''ABC''
        \<lparr>Rootfs = ''/tmp/fuzzing'', Namespaces = [\<lparr>Type = NEWNS, Path = []\<rparr>],
          Cgroups = None\<rparr>,
      StateCall ''ABC'', StatsCall ''ABC'', OCIStateCall ''ABC'', ProcessesCall ''ABC'',
      DestroyCall ''ABC'']"
proof -
  have len: "4 \<le> length [1, 0, 0, 0, 12, 3, 65, 66, 67 :: byte]"
    by simp
  have mk: "\<not> MkdirAll_fails demo_env ''/tmp/fuzzing''"
    by (simp add: demo_env_def)
  have gen: "GenerateStruct_Config demo_env (NewConsumer demo_env [1, 0, 0, 0, 12, 3, 65, 66, 67]) =
               (\<lparr>Rootfs = [], Namespaces = [], Cgroups = Some \<lparr>Parent = ''system.slice''\<rparr>\<rparr>,
                [12, 3, 65, 66, 67])"
    by (simp add: demo_simps)
  have sel: "GetInt demo_env [12, 3, 65, 66, 67] = (Some 12, [3, 65, 66, 67])"
    by (simp add: demo_simps)
  have nm: "GetString demo_env [3, 65, 66, 67] = (Some ''ABC'', [])"
    using demo_name by (simp add: demo_simps)
  have len': "4 \<le> length [0, 0, 0, 0, 3, 65, 66, 67 :: byte]"
    by simp
  have mk': "\<not> MkdirAll_fails negative_selector_env ''/tmp/fuzzing''"
    by (simp add: negative_selector_env_def demo_env_def)
  have gen': "GenerateStruct_Config negative_selector_env
                (NewConsumer negative_selector_env [0, 0, 0, 0, 3, 65, 66, 67]) =
               (\<lparr>Rootfs = [], Namespaces = [], Cgroups = None\<rparr>, [3, 65, 66, 67])"
    by (simp add: negative_selector_env_def demo_simps)
  have sel': "GetInt negative_selector_env [3, 65, 66, 67] = (Some (- 8), [3, 65, 66, 67])"
    by (simp add: negative_selector_env_def demo_simps)
  have nm': "GetString negative_selector_env [3, 65, 66, 67] = (Some ''ABC'', [])"
    using demo_name by (simp add: negative_selector_env_def demo_simps)
  show ?thesis
    using FuzzStateApi_namespace_selection [OF len mk gen sel nm, of fresh_world]
      FuzzStateApi_namespace_selection [OF len' mk' gen' sel' nm', of fresh_world]
    by (simp add: Let_def newContainerWithName_def lib_New_def lib_Create_def wants_systemd_def
        negative_selector_env_def demo_env_def fresh_world_def)
qed


subsection \<open>The root directories\<close>

text \<open>\<open>FuzzFactory\<close> never removes \<open>/tmp/fuzz-root\<close>, and creates it once it is past the
  length check, as long as \<open>Load\<close> keeps it.\<close>

lemma FuzzFactory_keeps_root:
  assumes "\<forall>f i d. ''/tmp/fuzz-root'' \<in> d \<longrightarrow> ''/tmp/fuzz-root'' \<in> Load env f i d"
    and "''/tmp/fuzz-root'' \<in> disk w"
  shows "''/tmp/fuzz-root'' \<in> disk (snd (FuzzFactory env data w))"
  using assms
  by (auto simp: FuzzFactory_def Let_def os_MkdirAll_Inr os_MkdirAll_Inl createFiles_single call_def
      simp del: createFiles.simps
      split: sum.splits prod.splits option.splits if_splits)

lemma FuzzFactory_makes_root:
  assumes "\<forall>f i d. ''/tmp/fuzz-root'' \<in> d \<longrightarrow> ''/tmp/fuzz-root'' \<in> Load env f i d"
    and "20 \<le> length data"
    and "\<not> MkdirAll_fails env ''/tmp/fuzz-root''"
  shows "''/tmp/fuzz-root'' \<in> disk (snd (FuzzFactory env data w))"
  using assms
  by (auto simp: FuzzFactory_def Let_def os_MkdirAll_Inr os_MkdirAll_Inl createFiles_single call_def
      simp del: createFiles.simps
      split: sum.splits prod.splits option.splits if_splits)

text \<open>\<open>FuzzStateApi\<close> defers the removal of its root as soon as \<open>newTestRoot\<close> has
  returned it, so the root is gone on every path from there.\<close>

lemma FuzzStateApi_removes_root:
  assumes "4 \<le> length data"
    and "\<not> MkdirAll_fails env ''/tmp/fuzzing''"
  shows "''/tmp/fuzzing'' \<notin> disk (snd (FuzzStateApi env data w))"
  using assms
  by (simp add: FuzzStateApi_def Let_def newTestRoot_def os_MkdirAll_def split: prod.splits)

text \<open>
  Claim C7, amended. The root of \<open>FuzzFactory\<close> is left behind: if \<open>Load\<close> does not
  delete \<open>/tmp/fuzz-root\<close>, then after \<open>FuzzFactory\<close> returns the directory exists
  whenever it existed before or the harness got past creating it. The root of
  \<open>FuzzStateApi\<close> is not: once the buffer has 4 bytes and \<open>/tmp/fuzzing\<close> could be
  created, the directory does not exist when \<open>FuzzStateApi\<close> returns.
\<close>

theorem root_directories_after_return:
  "((\<forall>f i d. ''/tmp/fuzz-root'' \<in> d \<longrightarrow> ''/tmp/fuzz-root'' \<in> Load env f i d) \<and>
    (''/tmp/fuzz-root'' \<in> disk w \<or>
     20 \<le> length data \<and> \<not> MkdirAll_fails env ''/tmp/fuzz-root'') \<longrightarrow>
      ''/tmp/fuzz-root'' \<in> disk (snd (FuzzFactory env data w))) \<and>
   (4 \<le> length data' \<and> \<not> MkdirAll_fails env ''/tmp/fuzzing'' \<longrightarrow>
      ''/tmp/fuzzing'' \<notin> disk (snd (FuzzStateApi env data' w')))"
  using FuzzFactory_keeps_root [of env w data] FuzzFactory_makes_root [of env data w]
    FuzzStateApi_removes_root [of data' env w']
  by blast

theorem root_directories_after_return_witness:
  "20 \<le> length factory_input \<and> \<not> MkdirAll_fails demo_env ''/tmp/fuzz-root'' \<and>
   ''/tmp/fuzz-root'' \<in> disk (snd (FuzzFactory demo_env factory_input fresh_world)) \<and>
   \<not> MkdirAll_fails demo_env ''/tmp/fuzzing'' \<and>
   ''/tmp/fuzzing'' \<notin> disk (snd (FuzzStateApi demo_env [0, 0, 0, 0, 12] used_world))"
proof -
  have keeps: "\<forall>f i d. ''/tmp/fuzz-root'' \<in> d \<longrightarrow> ''/tmp/fuzz-root'' \<in> Load demo_env f i d"
    by (simp add: demo_env_def)
  have len: "20 \<le> length factory_input"
    by (simp add: factory_input_def)
  have mk: "\<not> MkdirAll_fails demo_env ''/tmp/fuzz-root''" "\<not> MkdirAll_fails demo_env ''/tmp/fuzzing''"
    by (simp_all add: demo_env_def)
  have len': "4 \<le> length [0, 0, 0, 0, 12 :: byte]"
    by simp
  show ?thesis
    using root_directories_after_return [of demo_env fresh_world factory_input "[0, 0, 0, 0, 12]" used_world]
      keeps len mk len'
    by blast
qed

text \<open>The claim as stated has \<open>/tmp/fuzzing\<close> persist after \<open>FuzzStateApi\<close> returns. In a
  world where an earlier run left the directory behind, a run that creates, queries
  and destroys a container returns 1 and the directory is gone.\<close>

theorem FuzzStateApi_root_persists_counterexample:
  "''/tmp/fuzzing'' \<in> disk (used_world :: (byte list, cgroup_option, string) world) \<and>
   fst (FuzzStateApi demo_env [1, 0, 0, 0, 12, 3, 65, 66, 67] used_world) = 1 \<and>
   ''/tmp/fuzzing'' \<notin> disk (snd (FuzzStateApi demo_env [1, 0, 0, 0, 12, 3, 65, 66, 67] used_world))"
  by (simp add: FuzzStateApi_def Let_def newTestRoot_def os_MkdirAll_def logrus_SetLevel_def
      newContainerWithName_def lib_New_def lib_Create_def wants_systemd_def add_Namespaces_def
      call_def demo_simps used_world_def)

end
